theory Spec2Isabelle
  imports Main "HOL-Library.Word"
begin

section \<open>The button module of the M5Stack firmware (buttons.h, buttons.cpp)\<close>

text \<open>
  The target is an ESP32 (M5Core2): \<^verbatim>\<open>unsigned long\<close> is 32 bits wide, and
  subtraction of two timestamps wraps around modulo \<open>2 ^ 32\<close>, which is what \<open>-\<close> on
  \<open>32 word\<close> does. The comparisons \<open><\<close>, \<open>\<le>\<close> on words are the unsigned ones.
\<close>

type_synonym ulong = "32 word"

subsection \<open>Data: \<^verbatim>\<open>struct ButtonState\<close>\<close>

record ButtonState =
  isPressed :: bool
  wasLongPressed :: bool
  wasDoubleClicked :: bool
  pressedTime :: ulong
  lastPressTime :: ulong
  lastState :: bool
  lastDebounceTime :: ulong

text \<open>The three globals \<^verbatim>\<open>buttonA\<close>, \<^verbatim>\<open>buttonB\<close>, \<^verbatim>\<open>buttonC\<close>.\<close>

record Buttons =
  buttonA :: ButtonState
  buttonB :: ButtonState
  buttonC :: ButtonState

subsection \<open>Configuration\<close>

definition DEBOUNCE_DELAY :: ulong where
  "DEBOUNCE_DELAY = 50"

definition LONG_PRESS_TIME :: ulong where
  "LONG_PRESS_TIME = 1000"

definition DOUBLE_CLICK_TIME :: ulong where
  "DOUBLE_CLICK_TIME = 400"

subsection \<open>Initialisation\<close>

text \<open>
  The aggregate initialiser \<^verbatim>\<open>{false, false, false, 0, 0}\<close> names the first five
  members; C++ value-initialises the remaining two, \<^verbatim>\<open>lastState\<close> and
  \<^verbatim>\<open>lastDebounceTime\<close>, to \<^verbatim>\<open>false\<close> and \<^verbatim>\<open>0\<close>.
\<close>

definition initButton :: ButtonState where
  "initButton =
     \<lparr> isPressed = False, wasLongPressed = False, wasDoubleClicked = False,
       pressedTime = 0, lastPressTime = 0, lastState = False, lastDebounceTime = 0 \<rparr>"

definition initButtons :: Buttons where
  "initButtons = \<lparr> buttonA = initButton, buttonB = initButton, buttonC = initButton \<rparr>"

subsection \<open>The sampling step \<^verbatim>\<open>processButton\<close>\<close>

text \<open>
  \<^verbatim>\<open>processButton\<close> reads the clock once, at its first line; the value read is the
  parameter \<open>currentTime\<close>. The mutation of \<^verbatim>\<open>*button\<close> is explicit state passing:
  every assignment of the source is one record update, in the source's order.
\<close>

definition processButton :: "ButtonState \<Rightarrow> bool \<Rightarrow> ulong \<Rightarrow> ButtonState" where
  "processButton button currentState currentTime =
    (let b1 = (if currentState \<noteq> lastState button
               then button\<lparr>lastDebounceTime := currentTime\<rparr>
               else button);
         b2 = (if currentTime - lastDebounceTime b1 > DEBOUNCE_DELAY then
                 (let previousPressed = isPressed b1;
                      b3 = b1\<lparr>isPressed := currentState\<rparr>;
                      b4 = (if isPressed b3 \<and> \<not> previousPressed then
                              (let b5 = b3\<lparr>pressedTime := currentTime\<rparr>;
                                   b6 = (if currentTime - lastPressTime b5 < DOUBLE_CLICK_TIME
                                         then b5\<lparr>wasDoubleClicked := True\<rparr>
                                         else b5\<lparr>wasDoubleClicked := False\<rparr>)
                               in b6\<lparr>lastPressTime := currentTime\<rparr>)
                            else b3)
                  in (if \<not> isPressed b4 \<and> previousPressed then
                        (let pressDuration = currentTime - pressedTime b4
                         in (if pressDuration \<ge> LONG_PRESS_TIME
                             then b4\<lparr>wasLongPressed := True\<rparr>
                             else b4\<lparr>wasLongPressed := False\<rparr>))
                      else b4))
               else b1)
     in b2\<lparr>lastState := currentState\<rparr>)"

text \<open>
  \<^verbatim>\<open>updateButtonStates\<close>: the three raw readings of \<^verbatim>\<open>M5.BtnX.isPressed()\<close> and the
  three clock readings (one per \<^verbatim>\<open>processButton\<close> call) are the inputs.
\<close>

definition updateButtonStates ::
  "Buttons \<Rightarrow> bool \<times> ulong \<Rightarrow> bool \<times> ulong \<Rightarrow> bool \<times> ulong \<Rightarrow> Buttons" where
  "updateButtonStates bs a b c =
     \<lparr> buttonA = processButton (buttonA bs) (fst a) (snd a),
       buttonB = processButton (buttonB bs) (fst b) (snd b),
       buttonC = processButton (buttonC bs) (fst c) (snd c) \<rparr>"

text \<open>
  The polling loop calls \<^verbatim>\<open>processButton\<close> once per tick; \<open>samples\<close> is that repeated
  call on one button, for a list of (raw reading, clock reading) pairs, oldest first.
\<close>

fun samples :: "ButtonState \<Rightarrow> (bool \<times> ulong) list \<Rightarrow> ButtonState" where
  "samples button [] = button"
| "samples button ((currentState, currentTime) # rest) =
     samples (processButton button currentState currentTime) rest"

subsection \<open>The queries\<close>

text \<open>
  Every query takes \<^verbatim>\<open>ButtonState*\<close>; the model returns the result together with the
  record as the call leaves it, so that what a query writes (or does not write) is visible.
\<close>

definition isButtonPressed :: "ButtonState \<Rightarrow> bool \<times> ButtonState" where
  "isButtonPressed button = (isPressed button, button)"

definition wasButtonClicked :: "ButtonState \<Rightarrow> bool \<times> ButtonState" where
  "wasButtonClicked button =
     (if \<not> isPressed button \<and> lastState button \<and> \<not> wasLongPressed button
      then (True, button\<lparr>lastState := False\<rparr>)
      else (False, button))"

definition wasButtonLongPressed :: "ButtonState \<Rightarrow> bool \<times> ButtonState" where
  "wasButtonLongPressed button =
     (if wasLongPressed button
      then (True, button\<lparr>wasLongPressed := False\<rparr>)
      else (False, button))"

definition wasButtonDoubleClicked :: "ButtonState \<Rightarrow> bool \<times> ButtonState" where
  "wasButtonDoubleClicked button =
     (if wasDoubleClicked button
      then (True, button\<lparr>wasDoubleClicked := False\<rparr>)
      else (False, button))"

text \<open>\<^verbatim>\<open>getButtonPressDuration\<close> reads the clock; the value read is \<open>now\<close>.\<close>

definition getButtonPressDuration :: "ButtonState \<Rightarrow> ulong \<Rightarrow> ulong \<times> ButtonState" where
  "getButtonPressDuration button now =
     (if isPressed button then (now - pressedTime button, button) else (0, button))"

subsection \<open>Accepted transitions\<close>

text \<open>
  A sample accepts a press when the debounced state \<^verbatim>\<open>isPressed\<close> goes from false to
  true across the call, and a release when it goes from true to false.
\<close>

definition press_accepted :: "ButtonState \<Rightarrow> bool \<Rightarrow> ulong \<Rightarrow> bool" where
  "press_accepted button currentState currentTime \<longleftrightarrow>
     \<not> isPressed button \<and> isPressed (processButton button currentState currentTime)"

definition release_accepted :: "ButtonState \<Rightarrow> bool \<Rightarrow> ulong \<Rightarrow> bool" where
  "release_accepted button currentState currentTime \<longleftrightarrow>
     isPressed button \<and> \<not> isPressed (processButton button currentState currentTime)"

subsection \<open>Sequences of samples\<close>

text \<open>
  No sample of the list accepts a release whose hold duration reaches the long-press
  time (the transition at which \<^verbatim>\<open>processButton\<close> writes \<^verbatim>\<open>wasLongPressed = true\<close>).
\<close>

fun no_long_release :: "ButtonState \<Rightarrow> (bool \<times> ulong) list \<Rightarrow> bool" where
  "no_long_release button [] = True"
| "no_long_release button ((currentState, currentTime) # rest) =
     (\<not> (release_accepted button currentState currentTime
          \<and> LONG_PRESS_TIME \<le> currentTime - pressedTime button)
      \<and> no_long_release (processButton button currentState currentTime) rest)"

text \<open>
  No sample of the list accepts a press that starts within the double-click time of the
  previous press (the transition at which \<^verbatim>\<open>processButton\<close> writes
  \<^verbatim>\<open>wasDoubleClicked = true\<close>).
\<close>

fun no_double_press :: "ButtonState \<Rightarrow> (bool \<times> ulong) list \<Rightarrow> bool" where
  "no_double_press button [] = True"
| "no_double_press button ((currentState, currentTime) # rest) =
     (\<not> (press_accepted button currentState currentTime
          \<and> currentTime - lastPressTime button < DOUBLE_CLICK_TIME)
      \<and> no_double_press (processButton button currentState currentTime) rest)"

text \<open>
  Every sample of the list that repeats the previous raw reading is taken at most
  \<^verbatim>\<open>DEBOUNCE_DELAY\<close> after the last sample whose raw reading differed from its
  predecessor. \<open>ls\<close> is the last raw reading and \<open>ld\<close> the time of the last change.
\<close>

fun within_debounce :: "bool \<Rightarrow> ulong \<Rightarrow> (bool \<times> ulong) list \<Rightarrow> bool" where
  "within_debounce ls ld [] = True"
| "within_debounce ls ld ((currentState, currentTime) # rest) =
     (if currentState \<noteq> ls then within_debounce currentState currentTime rest
      else currentTime - ld \<le> DEBOUNCE_DELAY \<and> within_debounce ls ld rest)"

subsection \<open>Concrete runs from the initial state\<close>

text \<open>
  A press accepted at 1051 ms and released after 100 ms, a second press accepted at
  1251 ms (200 ms after the first) and held until its release is accepted at 2351 ms
  (1100 ms later). Times are the values of \<^verbatim>\<open>millis()\<close>.
\<close>

definition double_then_long :: "(bool \<times> ulong) list" where
  "double_then_long =
     [(True, 1000), (True, 1051), (False, 1100), (False, 1151),
      (True, 1200), (True, 1251), (False, 2300), (False, 2351)]"

section \<open>Properties\<close>

subsection \<open>What one sample does, field by field\<close>

lemma processButton_lastState [simp]:
  "lastState (processButton b raw t) = raw"
  by (simp add: processButton_def Let_def)

lemma processButton_lastDebounceTime:
  "lastDebounceTime (processButton b raw t) =
     (if raw \<noteq> lastState b then t else lastDebounceTime b)"
  by (simp add: processButton_def Let_def)

lemma processButton_isPressed:
  "isPressed (processButton b raw t) =
     (if DEBOUNCE_DELAY < t - lastDebounceTime (processButton b raw t) then raw else isPressed b)"
  by (simp add: processButton_def Let_def)

lemma press_accepted_iff:
  "press_accepted b raw t \<longleftrightarrow>
     \<not> isPressed b \<and> raw \<and> lastState b \<and> DEBOUNCE_DELAY < t - lastDebounceTime b"
  by (auto simp add: press_accepted_def processButton_def Let_def)

lemma release_accepted_iff:
  "release_accepted b raw t \<longleftrightarrow>
     isPressed b \<and> \<not> raw \<and> \<not> lastState b \<and> DEBOUNCE_DELAY < t - lastDebounceTime b"
  by (auto simp add: release_accepted_def processButton_def Let_def)

lemma processButton_wasDoubleClicked:
  "wasDoubleClicked (processButton b raw t) =
     (if press_accepted b raw t then t - lastPressTime b < DOUBLE_CLICK_TIME
      else wasDoubleClicked b)"
  by (auto simp add: press_accepted_def processButton_def Let_def)

lemma processButton_wasLongPressed:
  "wasLongPressed (processButton b raw t) =
     (if release_accepted b raw t then LONG_PRESS_TIME \<le> t - pressedTime b
      else wasLongPressed b)"
  by (auto simp add: release_accepted_def processButton_def Let_def)

lemma processButton_pressedTime:
  "pressedTime (processButton b raw t) =
     (if press_accepted b raw t then t else pressedTime b)"
  by (auto simp add: press_accepted_def processButton_def Let_def)

lemma processButton_lastPressTime:
  "lastPressTime (processButton b raw t) =
     (if press_accepted b raw t then t else lastPressTime b)"
  by (auto simp add: press_accepted_def processButton_def Let_def)

subsection \<open>Flags across a run of samples\<close>

lemma samples_no_long_release:
  "\<not> wasLongPressed b \<Longrightarrow> no_long_release b xs \<Longrightarrow> \<not> wasLongPressed (samples b xs)"
  by (induction xs arbitrary: b) (auto simp add: processButton_wasLongPressed)

lemma samples_no_double_press:
  "\<not> wasDoubleClicked b \<Longrightarrow> no_double_press b xs \<Longrightarrow> \<not> wasDoubleClicked (samples b xs)"
  by (induction xs arbitrary: b) (auto simp add: processButton_wasDoubleClicked)

subsection \<open>The consuming reads\<close>

text \<open>
  C10. Frame of the queries: \<^verbatim>\<open>wasButtonLongPressed\<close> writes no field other than
  \<^verbatim>\<open>wasLongPressed\<close>, \<^verbatim>\<open>wasButtonDoubleClicked\<close> writes no field other than
  \<^verbatim>\<open>wasDoubleClicked\<close>, and \<^verbatim>\<open>isButtonPressed\<close> and \<^verbatim>\<open>getButtonPressDuration\<close>
  leave the whole record as it was.
\<close>

theorem query_frame:
  fixes b :: ButtonState
  shows "isPressed (snd (wasButtonLongPressed b)) = isPressed b
       \<and> wasDoubleClicked (snd (wasButtonLongPressed b)) = wasDoubleClicked b
       \<and> pressedTime (snd (wasButtonLongPressed b)) = pressedTime b
       \<and> lastPressTime (snd (wasButtonLongPressed b)) = lastPressTime b
       \<and> lastState (snd (wasButtonLongPressed b)) = lastState b
       \<and> lastDebounceTime (snd (wasButtonLongPressed b)) = lastDebounceTime b
       \<and> isPressed (snd (wasButtonDoubleClicked b)) = isPressed b
       \<and> wasLongPressed (snd (wasButtonDoubleClicked b)) = wasLongPressed b
       \<and> pressedTime (snd (wasButtonDoubleClicked b)) = pressedTime b
       \<and> lastPressTime (snd (wasButtonDoubleClicked b)) = lastPressTime b
       \<and> lastState (snd (wasButtonDoubleClicked b)) = lastState b
       \<and> lastDebounceTime (snd (wasButtonDoubleClicked b)) = lastDebounceTime b
       \<and> snd (isButtonPressed b) = b
       \<and> snd (getButtonPressDuration b now) = b"
  by (simp add: wasButtonLongPressed_def wasButtonDoubleClicked_def
      isButtonPressed_def getButtonPressDuration_def)

text \<open>
  C7. Read-clear: when \<^verbatim>\<open>wasLongPressed\<close> is set, \<^verbatim>\<open>wasButtonLongPressed\<close> returns
  true, and the next call returns false, whether it follows at once (\<open>xs = []\<close>) or after
  samples none of which accepts a release held for 1000 ms or more. The same holds for
  \<^verbatim>\<open>wasDoubleClicked\<close> and \<^verbatim>\<open>wasButtonDoubleClicked\<close>, with samples none of which
  accepts a press within 400 ms of the previous press.
\<close>

theorem read_clears_flag:
  "(wasLongPressed b \<and> no_long_release (snd (wasButtonLongPressed b)) xs \<longrightarrow>
      fst (wasButtonLongPressed b) = True
      \<and> fst (wasButtonLongPressed (samples (snd (wasButtonLongPressed b)) xs)) = False)
 \<and> (wasDoubleClicked b \<and> no_double_press (snd (wasButtonDoubleClicked b)) ys \<longrightarrow>
      fst (wasButtonDoubleClicked b) = True
      \<and> fst (wasButtonDoubleClicked (samples (snd (wasButtonDoubleClicked b)) ys)) = False)"
  using samples_no_long_release [of "b\<lparr>wasLongPressed := False\<rparr>" xs]
        samples_no_double_press [of "b\<lparr>wasDoubleClicked := False\<rparr>" ys]
  by (auto simp add: wasButtonLongPressed_def wasButtonDoubleClicked_def)

theorem read_clears_flag_witness:
  "wasLongPressed (samples initButton double_then_long)
   \<and> no_long_release (snd (wasButtonLongPressed (samples initButton double_then_long)))
        [(True, 3000), (True, 3051)]
   \<and> fst (wasButtonLongPressed (samples initButton double_then_long)) = True
   \<and> fst (wasButtonLongPressed
        (samples (snd (wasButtonLongPressed (samples initButton double_then_long)))
           [(True, 3000), (True, 3051)])) = False
   \<and> wasDoubleClicked (samples initButton double_then_long)
   \<and> no_double_press (snd (wasButtonDoubleClicked (samples initButton double_then_long))) []
   \<and> fst (wasButtonDoubleClicked (samples initButton double_then_long)) = True
   \<and> fst (wasButtonDoubleClicked
        (samples (snd (wasButtonDoubleClicked (samples initButton double_then_long))) [])) = False"
proof -
  have long: "wasLongPressed (samples initButton double_then_long)"
    by code_simp
  have quiet: "no_long_release (snd (wasButtonLongPressed (samples initButton double_then_long)))
        [(True, 3000), (True, 3051)]"
    by code_simp
  have dbl: "wasDoubleClicked (samples initButton double_then_long)"
    by code_simp
  show ?thesis
    using long quiet dbl
      read_clears_flag [of "samples initButton double_then_long" "[(True, 3000), (True, 3051)]" "[]"]
    by simp
qed

subsection \<open>The click query and the debounce timer\<close>

text \<open>
  C8. When \<^verbatim>\<open>isPressed\<close> is false, \<^verbatim>\<open>lastState\<close> is true and \<^verbatim>\<open>wasLongPressed\<close> is
  false, \<^verbatim>\<open>wasButtonClicked\<close> returns true and writes \<^verbatim>\<open>lastState = false\<close>. The next
  \<^verbatim>\<open>processButton\<close> call with the raw signal still true then sees a difference from
  \<^verbatim>\<open>lastState\<close>, sets \<^verbatim>\<open>lastDebounceTime\<close> to the current time and accepts nothing,
  whereas without the query the same call would have left \<^verbatim>\<open>lastDebounceTime\<close> alone.
\<close>

theorem click_read_restarts_debounce:
  assumes "\<not> isPressed b" and "lastState b" and "\<not> wasLongPressed b"
  shows "fst (wasButtonClicked b) = True
       \<and> lastState (snd (wasButtonClicked b)) = False
       \<and> lastDebounceTime (processButton (snd (wasButtonClicked b)) True now) = now
       \<and> isPressed (processButton (snd (wasButtonClicked b)) True now) = False
       \<and> lastDebounceTime (processButton b True now) = lastDebounceTime b"
  using assms
  by (simp add: wasButtonClicked_def processButton_lastDebounceTime processButton_isPressed)

theorem click_read_restarts_debounce_witness:
  "\<not> isPressed (processButton initButton True 1000)
   \<and> lastState (processButton initButton True 1000)
   \<and> \<not> wasLongPressed (processButton initButton True 1000)
   \<and> fst (wasButtonClicked (processButton initButton True 1000)) = True
   \<and> lastState (snd (wasButtonClicked (processButton initButton True 1000))) = False
   \<and> lastDebounceTime
        (processButton (snd (wasButtonClicked (processButton initButton True 1000))) True 1060)
      = 1060
   \<and> isPressed
        (processButton (snd (wasButtonClicked (processButton initButton True 1000))) True 1060)
      = False
   \<and> lastDebounceTime (processButton (processButton initButton True 1000) True 1060) = 1000"
proof -
  have h1: "\<not> isPressed (processButton initButton True 1000)"
    by code_simp
  have h2: "lastState (processButton initButton True 1000)"
    by code_simp
  have h3: "\<not> wasLongPressed (processButton initButton True 1000)"
    by code_simp
  have h4: "lastDebounceTime (processButton initButton True 1000) = 1000"
    by (simp add: processButton_lastDebounceTime initButton_def)
  show ?thesis
    using h1 h2 h3 h4 click_read_restarts_debounce [OF h1 h2 h3, of 1060]
    by simp
qed

subsection \<open>The first press after initialisation\<close>

text \<open>
  C9. \<^verbatim>\<open>lastPressTime\<close> starts at 0. If it is still 0 when a sample accepts a press
  and the clock reads less than 400 ms at that sample, the sample sets
  \<^verbatim>\<open>wasDoubleClicked\<close>, and \<^verbatim>\<open>wasButtonDoubleClicked\<close> then returns true, although no
  press was accepted before.
\<close>

theorem first_press_double_click:
  assumes "lastPressTime b = 0" and "press_accepted b raw now" and "now < 400"
  shows "wasDoubleClicked (processButton b raw now)
       \<and> fst (wasButtonDoubleClicked (processButton b raw now)) = True"
  using assms
  by (simp add: processButton_wasDoubleClicked wasButtonDoubleClicked_def DOUBLE_CLICK_TIME_def)

theorem first_press_double_click_witness:
  "lastPressTime (buttonA initButtons) = 0
   \<and> lastPressTime (processButton (buttonA initButtons) True 100) = 0
   \<and> press_accepted (processButton (buttonA initButtons) True 100) True 151
   \<and> (151 :: ulong) < 400
   \<and> wasDoubleClicked (processButton (processButton (buttonA initButtons) True 100) True 151)
   \<and> fst (wasButtonDoubleClicked
        (processButton (processButton (buttonA initButtons) True 100) True 151)) = True"
proof -
  have h0: "lastPressTime (buttonA initButtons) = 0"
    by (simp add: initButtons_def initButton_def)
  have h1: "lastPressTime (processButton (buttonA initButtons) True 100) = 0"
    by (simp add: processButton_lastPressTime press_accepted_iff initButtons_def initButton_def)
  have h2: "press_accepted (processButton (buttonA initButtons) True 100) True 151"
    by code_simp
  have h3: "(151 :: ulong) < 400"
    by simp
  show ?thesis
    using h0 h1 h2 h3 first_press_double_click [OF h1 h2 h3]
    by simp
qed

subsection \<open>The debounce threshold\<close>

text \<open>
  C5. One \<^verbatim>\<open>processButton\<close> call copies the raw reading into \<^verbatim>\<open>isPressed\<close> exactly when
  the time since the last observed change of the raw reading is strictly more than
  50 ms: a reading equal to the previous one and taken more than 50 ms after the last
  change is what \<^verbatim>\<open>isPressed\<close> holds after the call; a call at most 50 ms after the last
  change (the change observed by this very call included) leaves \<^verbatim>\<open>isPressed\<close> as it
  was, in particular at exactly 50 ms; and whenever \<^verbatim>\<open>isPressed\<close> differs after the
  call, the raw reading was unchanged and more than 50 ms had passed.
\<close>

theorem debounce_strictly_greater:
  "(raw = lastState b \<and> 50 < now - lastDebounceTime b \<longrightarrow>
      isPressed (processButton b raw now) = raw)
 \<and> (now - lastDebounceTime (processButton b raw now) \<le> 50 \<longrightarrow>
      isPressed (processButton b raw now) = isPressed b)
 \<and> (raw = lastState b \<and> now - lastDebounceTime b = 50 \<longrightarrow>
      isPressed (processButton b raw now) = isPressed b)
 \<and> (raw \<noteq> lastState b \<longrightarrow>
      lastDebounceTime (processButton b raw now) = now
      \<and> isPressed (processButton b raw now) = isPressed b)
 \<and> (isPressed (processButton b raw now) \<noteq> isPressed b \<longrightarrow>
      raw = lastState b \<and> 50 < now - lastDebounceTime b)"
proof -
  have ip: "isPressed (processButton b raw now) =
              (if 50 < now - lastDebounceTime (processButton b raw now) then raw else isPressed b)"
    using processButton_isPressed [of b raw now] by (simp only: DEBOUNCE_DELAY_def)
  show ?thesis
  proof (cases "raw = lastState b")
    case True
    then have l: "lastDebounceTime (processButton b raw now) = lastDebounceTime b"
      by (simp add: processButton_lastDebounceTime)
    show ?thesis
    proof (cases "50 < now - lastDebounceTime b")
      case gt: True
      then have n1: "\<not> now - lastDebounceTime b \<le> 50"
        by (simp add: not_le)
      from gt have n2: "now - lastDebounceTime b \<noteq> 50"
        by auto
      from True l ip gt n1 n2 show ?thesis by simp
    next
      case le: False
      with True l ip show ?thesis by simp
    qed
  next
    case False
    then have l: "lastDebounceTime (processButton b raw now) = now"
      by (simp add: processButton_lastDebounceTime)
    with False ip show ?thesis by simp
  qed
qed

theorem debounce_strictly_greater_witness:
  "(True = lastState (processButton initButton True 1000)
      \<and> 50 < 1051 - lastDebounceTime (processButton initButton True 1000))
   \<and> isPressed (processButton (processButton initButton True 1000) True 1051) = True
   \<and> 1050 - lastDebounceTime (processButton (processButton initButton True 1000) True 1050) \<le> 50
   \<and> isPressed (processButton (processButton initButton True 1000) True 1050)
      = isPressed (processButton initButton True 1000)
   \<and> (True = lastState (processButton initButton True 1000)
      \<and> 1050 - lastDebounceTime (processButton initButton True 1000) = 50)
   \<and> True \<noteq> lastState initButton
   \<and> lastDebounceTime (processButton initButton True 1000) = 1000
   \<and> isPressed (processButton initButton True 1000) = isPressed initButton
   \<and> isPressed (processButton (processButton initButton True 1000) True 1051)
      \<noteq> isPressed (processButton initButton True 1000)"
proof -
  have a1: "True = lastState (processButton initButton True 1000)
      \<and> 50 < 1051 - lastDebounceTime (processButton initButton True 1000)"
    by code_simp
  have a2: "1050 - lastDebounceTime (processButton (processButton initButton True 1000) True 1050)
      \<le> 50"
    by code_simp
  have a3: "True = lastState (processButton initButton True 1000)
      \<and> 1050 - lastDebounceTime (processButton initButton True 1000) = 50"
    by code_simp
  have a4: "True \<noteq> lastState initButton"
    by code_simp
  have a5: "isPressed (processButton (processButton initButton True 1000) True 1051)
      \<noteq> isPressed (processButton initButton True 1000)"
    by code_simp
  show ?thesis
    using a1 a2 a3 a4 a5
      debounce_strictly_greater [of True "processButton initButton True 1000" 1051]
      debounce_strictly_greater [of True "processButton initButton True 1000" 1050]
      debounce_strictly_greater [of True initButton 1000]
    by blast
qed

text \<open>
  A raw level \<open>r\<close> held over a run of samples: once the previous reading is \<open>r\<close>, the
  debounced state after the run is \<open>r\<close> if some sample of the run was taken more than
  50 ms after the last observed change, and is what it was before otherwise.
\<close>

lemma held_level:
  "lastState b = r \<Longrightarrow>
     isPressed (samples b (map (Pair r) ts)) =
       (if \<exists>t \<in> set ts. DEBOUNCE_DELAY < t - lastDebounceTime b then r else isPressed b)"
proof (induction ts arbitrary: b)
  case Nil
  show ?case by simp
next
  case (Cons t ts)
  have ls: "lastState (processButton b r t) = r"
    by simp
  have ldt: "lastDebounceTime (processButton b r t) = lastDebounceTime b"
    using Cons.prems by (simp add: processButton_lastDebounceTime)
  have ip: "isPressed (processButton b r t) =
              (if DEBOUNCE_DELAY < t - lastDebounceTime b then r else isPressed b)"
    using processButton_isPressed [of b r t] by (simp only: ldt)
  show ?case
    using Cons.IH [OF ls] by (simp add: ldt ip)
qed

subsection \<open>The gesture flags at an accepted transition\<close>

text \<open>
  C2, as the code has it. A sample that accepts a press assigns \<^verbatim>\<open>wasDoubleClicked\<close>:
  the new value is the comparison \<^verbatim>\<open>currentTime - lastPressTime < 400\<close> alone, whatever
  the flag held before, so a flag that is set and unread is cleared by an accepted press
  400 ms or more after the previous one. A sample that accepts no press leaves the flag
  as it was.
\<close>

theorem double_click_flag_assigned:
  "(press_accepted b raw now \<longrightarrow>
      wasDoubleClicked (processButton b raw now) = (now - lastPressTime b < 400))
 \<and> (\<not> press_accepted b raw now \<longrightarrow>
      wasDoubleClicked (processButton b raw now) = wasDoubleClicked b)"
  by (simp add: processButton_wasDoubleClicked DOUBLE_CLICK_TIME_def)

theorem double_click_flag_assigned_witness:
  "press_accepted (samples initButton (double_then_long @ [(True, 5000)])) True 5051
   \<and> wasDoubleClicked
        (processButton (samples initButton (double_then_long @ [(True, 5000)])) True 5051)
      = (5051 - lastPressTime (samples initButton (double_then_long @ [(True, 5000)])) < 400)
   \<and> \<not> press_accepted (samples initButton double_then_long) True 5000
   \<and> wasDoubleClicked (processButton (samples initButton double_then_long) True 5000)
      = wasDoubleClicked (samples initButton double_then_long)"
proof -
  have a1: "press_accepted (samples initButton (double_then_long @ [(True, 5000)])) True 5051"
    by code_simp
  have a2: "\<not> press_accepted (samples initButton double_then_long) True 5000"
    by code_simp
  show ?thesis
    using a1 a2
      double_click_flag_assigned
        [of "samples initButton (double_then_long @ [(True, 5000)])" True 5051]
      double_click_flag_assigned [of "samples initButton double_then_long" True 5000]
    by blast
qed

text \<open>
  C2 as an OR with the previous value fails on the run \<open>double_then_long\<close> followed by a
  third press (raw true at 5000 ms, accepted at 5051 ms, 3800 ms after the second press):
  \<^verbatim>\<open>wasDoubleClicked\<close> is set and unread before the accepting sample and false after it.
\<close>

theorem double_click_flag_not_latched:
  "press_accepted (samples initButton (double_then_long @ [(True, 5000)])) True 5051
   \<and> wasDoubleClicked (samples initButton (double_then_long @ [(True, 5000)]))
   \<and> wasDoubleClicked
        (processButton (samples initButton (double_then_long @ [(True, 5000)])) True 5051)
      \<noteq> (wasDoubleClicked (samples initButton (double_then_long @ [(True, 5000)]))
           \<or> 5051 - lastPressTime (samples initButton (double_then_long @ [(True, 5000)])) < 400)"
  by code_simp

text \<open>
  C3, as the code has it. A sample that accepts a release assigns \<^verbatim>\<open>wasLongPressed\<close>:
  the new value is the comparison \<^verbatim>\<open>currentTime - pressedTime >= 1000\<close> alone, whatever
  the flag held before, so a flag that is set and unread is cleared by an accepted
  release after a hold of less than 1000 ms. A sample that accepts no release leaves the
  flag as it was.
\<close>

theorem long_press_flag_assigned:
  "(release_accepted b raw now \<longrightarrow>
      wasLongPressed (processButton b raw now) = (1000 \<le> now - pressedTime b))
 \<and> (\<not> release_accepted b raw now \<longrightarrow>
      wasLongPressed (processButton b raw now) = wasLongPressed b)"
  by (simp add: processButton_wasLongPressed LONG_PRESS_TIME_def)

theorem long_press_flag_assigned_witness:
  "release_accepted
     (samples initButton (double_then_long @ [(True, 3000), (True, 3051), (False, 3100)]))
     False 3151
   \<and> wasLongPressed
        (processButton
           (samples initButton (double_then_long @ [(True, 3000), (True, 3051), (False, 3100)]))
           False 3151)
      = (1000 \<le> 3151 - pressedTime
           (samples initButton (double_then_long @ [(True, 3000), (True, 3051), (False, 3100)])))
   \<and> \<not> release_accepted (samples initButton double_then_long) True 3000
   \<and> wasLongPressed (processButton (samples initButton double_then_long) True 3000)
      = wasLongPressed (samples initButton double_then_long)"
proof -
  have a1: "release_accepted
     (samples initButton (double_then_long @ [(True, 3000), (True, 3051), (False, 3100)]))
     False 3151"
    by code_simp
  have a2: "\<not> release_accepted (samples initButton double_then_long) True 3000"
    by code_simp
  show ?thesis
    using a1 a2
      long_press_flag_assigned
        [of "samples initButton (double_then_long @ [(True, 3000), (True, 3051), (False, 3100)])"
            False 3151]
      long_press_flag_assigned [of "samples initButton double_then_long" True 3000]
    by blast
qed

text \<open>
  C3 as an OR with the previous value fails on the run \<open>double_then_long\<close> followed by a
  third press accepted at 3051 ms and released after 100 ms (raw false at 3100 ms,
  release accepted at 3151 ms): \<^verbatim>\<open>wasLongPressed\<close> is set and unread before the
  accepting sample and false after it.
\<close>

theorem long_press_flag_not_latched:
  "release_accepted
     (samples initButton (double_then_long @ [(True, 3000), (True, 3051), (False, 3100)]))
     False 3151
   \<and> wasLongPressed
        (samples initButton (double_then_long @ [(True, 3000), (True, 3051), (False, 3100)]))
   \<and> wasLongPressed
        (processButton
           (samples initButton (double_then_long @ [(True, 3000), (True, 3051), (False, 3100)]))
           False 3151)
      \<noteq> (wasLongPressed
             (samples initButton (double_then_long @ [(True, 3000), (True, 3051), (False, 3100)]))
           \<or> 1000 \<le> 3151 - pressedTime
             (samples initButton (double_then_long @ [(True, 3000), (True, 3051), (False, 3100)])))"
  by code_simp

subsection \<open>The click query after a sample\<close>

text \<open>
  \<^verbatim>\<open>processButton\<close> ends with \<^verbatim>\<open>lastState = currentState\<close>, so right after a sample
  \<^verbatim>\<open>wasButtonClicked\<close> tests the raw reading of that sample: it returns true exactly when
  the raw reading was true while the debounced state is still false.
\<close>

lemma click_after_sample:
  "fst (wasButtonClicked (processButton b raw t)) =
     (raw \<and> \<not> isPressed (processButton b raw t) \<and> \<not> wasLongPressed (processButton b raw t))"
  by (cases raw) (simp_all add: wasButtonClicked_def)

lemma no_click_after_release:
  "release_accepted b raw t \<Longrightarrow> fst (wasButtonClicked (processButton b raw t)) = False"
  by (simp add: click_after_sample release_accepted_iff)

lemma long_release_reported:
  "release_accepted b raw t \<Longrightarrow> LONG_PRESS_TIME \<le> t - pressedTime b \<Longrightarrow>
     fst (wasButtonLongPressed (processButton b raw t)) = True"
  by (simp add: wasButtonLongPressed_def processButton_wasLongPressed)

lemma click_and_long_press_exclusive:
  "\<not> (fst (wasButtonClicked b) \<and> fst (wasButtonLongPressed b))"
  by (simp add: wasButtonClicked_def wasButtonLongPressed_def)

text \<open>
  C1. The run: raw true at 1000 ms and 1051 ms (press accepted at 1051), raw false at
  1100 ms and 1151 ms (release accepted at 1151, after a hold of 100 ms). The click query
  after the accepted release returns false, since the accepting sample has just written
  \<^verbatim>\<open>lastState = false\<close>; the same query after the very first sample, before anything
  was accepted, returns true.
\<close>

theorem click_not_reported_after_release:
  "release_accepted (samples initButton [(True, 1000), (True, 1051), (False, 1100)]) False 1151
   \<and> 1151 - pressedTime (samples initButton [(True, 1000), (True, 1051), (False, 1100)]) = 100
   \<and> wasLongPressed
        (samples initButton [(True, 1000), (True, 1051), (False, 1100), (False, 1151)]) = False
   \<and> fst (wasButtonClicked
        (samples initButton [(True, 1000), (True, 1051), (False, 1100), (False, 1151)])) = False
   \<and> fst (wasButtonClicked (samples initButton [(True, 1000)])) = True"
  by code_simp

text \<open>
  C4. The run: press accepted at 2051 ms, release accepted at 3050 ms, a hold of 999 ms.
  After the accepted release neither \<^verbatim>\<open>wasButtonClicked\<close> nor \<^verbatim>\<open>wasButtonLongPressed\<close>
  returns true, in either order of the two calls.
\<close>

theorem short_release_reports_nothing:
  "release_accepted (samples initButton [(True, 2000), (True, 2051), (False, 2999)]) False 3050
   \<and> 3050 - pressedTime (samples initButton [(True, 2000), (True, 2051), (False, 2999)]) = 999
   \<and> fst (wasButtonClicked
        (samples initButton [(True, 2000), (True, 2051), (False, 2999), (False, 3050)])) = False
   \<and> fst (wasButtonLongPressed
        (samples initButton [(True, 2000), (True, 2051), (False, 2999), (False, 3050)])) = False
   \<and> fst (wasButtonLongPressed (snd (wasButtonClicked
        (samples initButton [(True, 2000), (True, 2051), (False, 2999), (False, 3050)])))) = False
   \<and> fst (wasButtonClicked (snd (wasButtonLongPressed
        (samples initButton [(True, 2000), (True, 2051), (False, 2999), (False, 3050)])))) = False"
  by code_simp

subsection \<open>Debounce suppression\<close>

lemma processButton_within_debounce:
  assumes "t - lastDebounceTime (processButton b raw t) \<le> DEBOUNCE_DELAY"
  shows "processButton b raw t =
           b\<lparr>lastDebounceTime := lastDebounceTime (processButton b raw t), lastState := raw\<rparr>"
proof -
  have "\<not> DEBOUNCE_DELAY < t - lastDebounceTime (processButton b raw t)"
    using assms by (simp add: not_less)
  then show ?thesis
    by (simp add: processButton_def Let_def split: if_splits)
qed

lemma processButton_change_within_debounce:
  "raw \<noteq> lastState b \<Longrightarrow>
     processButton b raw t = b\<lparr>lastDebounceTime := t, lastState := raw\<rparr>"
  by (simp add: processButton_def Let_def DEBOUNCE_DELAY_def)

text \<open>
  While every sample is taken at most 50 ms after the last observed change of the raw
  reading, the debounced state, both flags and both press timestamps stay as they were.
\<close>

lemma bounce_suppressed:
  "within_debounce (lastState b) (lastDebounceTime b) xs \<Longrightarrow>
     isPressed (samples b xs) = isPressed b
     \<and> wasLongPressed (samples b xs) = wasLongPressed b
     \<and> wasDoubleClicked (samples b xs) = wasDoubleClicked b
     \<and> pressedTime (samples b xs) = pressedTime b
     \<and> lastPressTime (samples b xs) = lastPressTime b"
proof (induction xs arbitrary: b)
  case Nil
  show ?case by simp
next
  case (Cons x xs)
  obtain raw t where x: "x = (raw, t)" by (cases x)
  show ?case
  proof (cases "raw \<noteq> lastState b")
    case True
    then have step: "processButton b raw t = b\<lparr>lastDebounceTime := t, lastState := raw\<rparr>"
      by (rule processButton_change_within_debounce)
    from Cons.prems x True
    have "within_debounce (lastState (processButton b raw t))
            (lastDebounceTime (processButton b raw t)) xs"
      by (simp add: processButton_lastDebounceTime)
    from Cons.IH [OF this] show ?thesis
      by (simp add: x step)
  next
    case False
    with Cons.prems x have le: "t - lastDebounceTime b \<le> DEBOUNCE_DELAY"
      and rest: "within_debounce (lastState b) (lastDebounceTime b) xs"
      by simp_all
    from False have ldt: "lastDebounceTime (processButton b raw t) = lastDebounceTime b"
      by (simp add: processButton_lastDebounceTime)
    from le ldt have step: "processButton b raw t = b\<lparr>lastState := raw\<rparr>"
      using processButton_within_debounce [of t b raw] by simp
    from rest False
    have "within_debounce (lastState (processButton b raw t))
            (lastDebounceTime (processButton b raw t)) xs"
      by (simp add: processButton_lastDebounceTime)
    from Cons.IH [OF this] show ?thesis
      by (simp add: x step)
  qed
qed

text \<open>
  Samples whose raw reading is false never change a released button: the debounced state
  stays false and neither flag nor press timestamp is written.
\<close>

lemma released_stays_released:
  "\<not> isPressed b \<Longrightarrow> \<forall>x \<in> set xs. \<not> fst x \<Longrightarrow>
     isPressed (samples b xs) = False
     \<and> wasLongPressed (samples b xs) = wasLongPressed b
     \<and> wasDoubleClicked (samples b xs) = wasDoubleClicked b
     \<and> pressedTime (samples b xs) = pressedTime b
     \<and> lastPressTime (samples b xs) = lastPressTime b"
proof (induction xs arbitrary: b)
  case Nil
  then show ?case by simp
next
  case (Cons x xs)
  obtain raw t where x: "x = (raw, t)" by (cases x)
  with Cons.prems have raw: "\<not> raw" by simp
  from Cons.prems raw have np: "\<not> press_accepted b raw t" and nr: "\<not> release_accepted b raw t"
    by (simp_all add: press_accepted_iff release_accepted_iff)
  from Cons.prems raw have ip: "\<not> isPressed (processButton b raw t)"
    by (simp add: processButton_isPressed)
  from Cons.prems have "\<forall>x \<in> set xs. \<not> fst x" by simp
  from Cons.IH [OF ip this] np nr show ?case
    by (simp add: x processButton_wasLongPressed processButton_wasDoubleClicked
        processButton_pressedTime processButton_lastPressTime)
qed

text \<open>
  The bounce of the scenario: on a released button whose last raw reading was false, a
  raw true sample followed by a raw false sample and then any samples with raw false
  (at whatever times) never changes the debounced state, the flags or the press timestamps.
\<close>

lemma bounce_never_stabilizes:
  assumes "\<not> isPressed b" and "\<not> lastState b" and "\<forall>x \<in> set xs. \<not> fst x"
  shows "isPressed (samples b ((True, t0) # (False, t1) # xs)) = False
       \<and> wasLongPressed (samples b ((True, t0) # (False, t1) # xs)) = wasLongPressed b
       \<and> wasDoubleClicked (samples b ((True, t0) # (False, t1) # xs)) = wasDoubleClicked b"
proof -
  have s1: "processButton b True t0 = b\<lparr>lastDebounceTime := t0, lastState := True\<rparr>"
    using assms(2) by (simp add: processButton_change_within_debounce)
  have s2: "processButton (processButton b True t0) False t1 =
              b\<lparr>lastDebounceTime := t1, lastState := False\<rparr>"
    by (simp add: s1 processButton_change_within_debounce)
  have "\<not> isPressed (b\<lparr>lastDebounceTime := t1, lastState := False\<rparr>)"
    using assms(1) by simp
  from released_stays_released [OF this assms(3)] show ?thesis
    by (simp add: s2)
qed

text \<open>
  C6. The scenario from the initial state: the raw signal is true at the sample taken at
  0 ms and false at the samples taken at 30 ms and later. The debounced state stays
  false, and yet \<^verbatim>\<open>wasButtonClicked\<close>, called after the first sample, returns true.
\<close>

theorem bounce_reports_click:
  "isPressed (samples initButton [(True, 0)]) = False
   \<and> fst (wasButtonClicked (samples initButton [(True, 0)])) = True
   \<and> isPressed (samples (snd (wasButtonClicked (samples initButton [(True, 0)])))
        [(False, 30), (False, 60), (False, 200)]) = False
   \<and> isPressed (samples initButton [(True, 0), (False, 30), (False, 60), (False, 200)]) = False"
  by code_simp

end
